theory Spec2Isabelle
  imports Main "HOL-Library.Word"
begin

section \<open>The question-of-the-day bot (src/src/qotd.c)\<close>

text \<open>
  A shallow embedding of \<^verbatim>\<open>qotd.c\<close>. The two globals of the program
  (\<^verbatim>\<open>qotd_message\<close> and \<^verbatim>\<open>is_initialized\<close>) are the fields of a state record
  that every callback takes and returns. Everything a callback hands to the client
  library or to the logger is an element of the list of effects it returns, in the
  order of the calls in the source.
\<close>

subsection \<open>Constants\<close>

type_synonym u64snowflake = "64 word"

definition CONFIG_FILE :: string where
  "CONFIG_FILE = ''config.json''"

definition LUMI_USER_ID :: u64snowflake where
  "LUMI_USER_ID = 905564480082153543"

definition QOTD_ROLE_ID :: u64snowflake where
  "QOTD_ROLE_ID = 1215105959815553096"

definition QOTD_CHANNEL_ID :: u64snowflake where
  "QOTD_CHANNEL_ID = 1198507295538151434"

definition EXIT_SUCCESS :: int where
  "EXIT_SUCCESS = 0"

definition EXIT_FAILURE :: int where
  "EXIT_FAILURE = 1"

subsection \<open>C library functions used by the program\<close>

text \<open>
  Strings are byte lists without the terminating NUL. \<^verbatim>\<open>strdup\<close> copies its
  argument. \<^verbatim>\<open>snprintf(buf, size, ...)\<close> stores at most \<open>size - 1\<close> bytes of the
  formatted output (and then the NUL), so what the caller reads back from \<^verbatim>\<open>buf\<close>
  is the formatted output cut at \<open>size - 1\<close> bytes; the first argument of the
  model is \<^verbatim>\<open>sizeof(buf)\<close>, the second the fully formatted text.
\<close>

definition strdup :: "string \<Rightarrow> string" where
  "strdup s = s"

definition snprintf :: "nat \<Rightarrow> string \<Rightarrow> string" where
  "snprintf size_buf formatted = take (size_buf - 1) formatted"

text \<open>The conversions \<^verbatim>\<open>%llu\<close>, \<^verbatim>\<open>%ld\<close> and \<^verbatim>\<open>%d\<close>: decimal digits, most significant first.\<close>

definition digit_char :: "nat \<Rightarrow> char" where
  "digit_char d = ''0123456789'' ! d"

fun show_nat :: "nat \<Rightarrow> string" where
  "show_nat n = (if n < 10 then [digit_char n] else show_nat (n div 10) @ [digit_char (n mod 10)])"

declare show_nat.simps [simp del]

definition show_llu :: "64 word \<Rightarrow> string" where
  "show_llu w = show_nat (unat w)"

definition show_int :: "int \<Rightarrow> string" where
  "show_int i = (if i < 0 then ''-'' @ show_nat (nat (- i)) else show_nat (nat i))"

definition newline :: char where
  "newline = CHR 0x0A"

definition dquote :: char where
  "dquote = CHR 0x22"

subsection \<open>Data handed over by the client library\<close>

text \<open>
  The client library's declarations are not part of the repository. The records keep
  the fields the program reads; a pointer chain such as
  \<^verbatim>\<open>event->member->user->id\<close> is one field, and the options array with its
  \<^verbatim>\<open>size\<close> is a list. \<^verbatim>\<open>event->data->options\<close> is a pointer to that array
  structure: \<open>None\<close> is the \<^verbatim>\<open>NULL\<close> pointer of an event that carries no option
  list at all, the invocation without a message that the handler's second test and
  its log line are written for. The handler is registered for every
  interaction-create event (line 221), whatever its data. The pointers to the member,
  its user and the data are taken to be valid.
\<close>

datatype discord_application_command_option_types =
    DISCORD_APPLICATION_OPTION_SUB_COMMAND
  | DISCORD_APPLICATION_OPTION_SUB_COMMAND_GROUP
  | DISCORD_APPLICATION_OPTION_STRING
  | DISCORD_APPLICATION_OPTION_INTEGER
  | DISCORD_APPLICATION_OPTION_BOOLEAN
  | DISCORD_APPLICATION_OPTION_USER
  | DISCORD_APPLICATION_OPTION_CHANNEL
  | DISCORD_APPLICATION_OPTION_ROLE
  | DISCORD_APPLICATION_OPTION_MENTIONABLE
  | DISCORD_APPLICATION_OPTION_NUMBER
  | DISCORD_APPLICATION_OPTION_ATTACHMENT

record interaction_data_option =
  option_type :: discord_application_command_option_types
  option_value :: string

record discord_interaction =
  event_id :: u64snowflake
  event_token :: string
  member_user_id :: u64snowflake
  member_user_username :: string
  data_options :: "interaction_data_option list option"

record discord_ready =
  application_id :: u64snowflake

datatype discord_interaction_callback_types =
    DISCORD_INTERACTION_PONG
  | DISCORD_INTERACTION_CHANNEL_MESSAGE_WITH_SOURCE
  | DISCORD_INTERACTION_DEFERRED_CHANNEL_MESSAGE_WITH_SOURCE

datatype discord_message_flags =
    NO_MESSAGE_FLAGS
  | DISCORD_MESSAGE_EPHEMERAL

record discord_interaction_response =
  response_type :: discord_interaction_callback_types
  response_flags :: discord_message_flags
  response_content :: string

datatype discord_application_command_types =
    DISCORD_APPLICATION_CHAT_INPUT
  | DISCORD_APPLICATION_USER
  | DISCORD_APPLICATION_MESSAGE

record discord_application_command_option =
  cmd_option_type :: discord_application_command_option_types
  cmd_option_name :: string
  cmd_option_description :: string
  cmd_option_required :: bool

record discord_application_command =
  command_type :: discord_application_command_types
  command_name :: string
  command_description :: string
  command_default_permission :: bool
  command_application_id :: u64snowflake
  command_options :: "discord_application_command_option list"

subsection \<open>Effects and state\<close>

datatype effect =
    Log_Trace string
  | Log_Info string
  | Log_Fatal string
  | Discord_Create_Interaction_Response u64snowflake string discord_interaction_response
  | Discord_Create_Message u64snowflake string
  | Discord_Bulk_Overwrite_Global_Application_Commands u64snowflake "discord_application_command list"
  | Discord_Timer_Interval "64 word" "64 word" "64 word"
  | Signal_Sigint_Handler
  | Discord_Set_On_Ready
  | Discord_Set_On_Interaction_Create
  | Discord_Run
  | Discord_Cleanup
  | Ccord_Global_Cleanup

record bot_state =
  qotd_message :: "string option"
  is_initialized :: bool

text \<open>The globals as the program starts: \<^verbatim>\<open>qotd_message = NULL\<close>, \<^verbatim>\<open>is_initialized = false\<close>.\<close>

definition initial_state :: bot_state where
  "initial_state = \<lparr>qotd_message = None, is_initialized = False\<rparr>"

fun is_interaction_response :: "effect \<Rightarrow> bool" where
  "is_interaction_response (Discord_Create_Interaction_Response i t r) = True"
| "is_interaction_response e = False"

fun is_create_message :: "effect \<Rightarrow> bool" where
  "is_create_message (Discord_Create_Message c m) = True"
| "is_create_message e = False"

fun is_timer_registration :: "effect \<Rightarrow> bool" where
  "is_timer_registration (Discord_Timer_Interval d i r) = True"
| "is_timer_registration e = False"

fun is_command_registration :: "effect \<Rightarrow> bool" where
  "is_command_registration (Discord_Bulk_Overwrite_Global_Application_Commands a cs) = True"
| "is_command_registration e = False"

subsection \<open>The submission handler\<close>

definition rejection_content :: string where
  "rejection_content = ''Hold up! Only Lumi can update the question of the day...''"

definition usage_error_content :: string where
  "usage_error_content = ''Invalid command usage, please provide a message!''"

text \<open>The format \<^verbatim>\<open>"Question of the day has been updated to:\n> \"%s\""\<close>.\<close>

definition format_response :: "string \<Rightarrow> string" where
  "format_response msg =
     ''Question of the day has been updated to:'' @ [newline] @ ''> '' @ [dquote] @ msg @ [dquote]"

definition ephemeral_response :: "string \<Rightarrow> discord_interaction_response" where
  "ephemeral_response content =
     \<lparr>response_type = DISCORD_INTERACTION_CHANNEL_MESSAGE_WITH_SOURCE,
      response_flags = DISCORD_MESSAGE_EPHEMERAL,
      response_content = content\<rparr>"

text \<open>
  A read through a \<^verbatim>\<open>NULL\<close> pointer ends the process: the callback performs no
  further effect and returns no state. The outcome of a callback that can fault is
  the fault or the new state, together with the effects performed before.
\<close>

datatype fault = Null_Pointer_Dereference

text \<open>
  The test
  \<^verbatim>\<open>event->data->options->size != 1 || event->data->options->array[0].type != DISCORD_APPLICATION_OPTION_STRING\<close>
  of line 97. It reads \<^verbatim>\<open>size\<close> through the options pointer without testing the
  pointer; the right operand is evaluated only when the size is 1.
\<close>

definition invalid_options :: "interaction_data_option list option \<Rightarrow> fault + bool" where
  "invalid_options options =
     (case options of
        None \<Rightarrow> Inl Null_Pointer_Dereference
      | Some array \<Rightarrow>
          Inr (if length array \<noteq> 1 then True
               else option_type (array ! 0) \<noteq> DISCORD_APPLICATION_OPTION_STRING))"

definition on_setqotd ::
  "bot_state \<Rightarrow> discord_interaction \<Rightarrow> (fault + bot_state) \<times> effect list" where
  "on_setqotd s event =
     (if member_user_id event \<noteq> LUMI_USER_ID then
        (Inr s,
         [Discord_Create_Interaction_Response (event_id event) (event_token event)
            (ephemeral_response rejection_content),
          Log_Info (''[QOTD] User '' @ member_user_username event
                    @ '' tried to update question of the day'')])
      else
        (case invalid_options (data_options event) of
           Inl f \<Rightarrow> (Inl f, [])
         | Inr True \<Rightarrow>
             (Inr s,
              [Discord_Create_Interaction_Response (event_id event) (event_token event)
                 (ephemeral_response usage_error_content),
               Log_Info (''[QOTD] User '' @ member_user_username event
                         @ '' tried to update qotd without providing a message'')])
         | Inr False \<Rightarrow>
             (case data_options event of
                None \<Rightarrow> (Inl Null_Pointer_Dereference, [])
              | Some array \<Rightarrow>
                  (let msg = strdup (option_value (array ! 0));
                       response = snprintf 4001 (format_response msg)
                   in (Inr (s\<lparr>qotd_message := Some msg\<rparr>),
                       [Discord_Create_Interaction_Response (event_id event) (event_token event)
                          (ephemeral_response response),
                        Log_Info (''[QOTD] User '' @ member_user_username event
                                  @ '' updated qotd to '' @ [dquote] @ msg @ [dquote])])))))"

subsection \<open>The daily publisher\<close>

text \<open>The format \<^verbatim>\<open>"<@&%llu> %s"\<close>.\<close>

definition format_message :: "u64snowflake \<Rightarrow> string \<Rightarrow> string" where
  "format_message role msg = ''<@&'' @ show_llu role @ ''> '' @ msg"

definition on_qotd_timer :: "bot_state \<Rightarrow> bot_state \<times> effect list" where
  "on_qotd_timer s =
     (case qotd_message s of
        None \<Rightarrow> (s, [Log_Info ''[QOTD] QOTD is not set, skipping...''])
      | Some msg \<Rightarrow>
          (s\<lparr>qotd_message := None\<rparr>,
           [Discord_Create_Message QOTD_CHANNEL_ID (snprintf 4001 (format_message QOTD_ROLE_ID msg))]))"

subsection \<open>Bootstrap: command schema and schedule computation\<close>

text \<open>
  \<^verbatim>\<open>time_t\<close> values are integers (seconds since the epoch). Of \<^verbatim>\<open>struct tm\<close>
  the model keeps the three clock fields the program assigns, and holds the date
  fields (\<^verbatim>\<open>tm_year\<close>, \<^verbatim>\<open>tm_mon\<close>, \<^verbatim>\<open>tm_mday\<close>), which the program never
  touches, as the number of the day they denote, counted from the epoch.
  \<^verbatim>\<open>gmtime\<close> breaks a time down in UTC and \<^verbatim>\<open>timegm\<close> is its inverse on
  broken-down UTC times. \<^verbatim>\<open>difftime\<close> returns the difference as a double,
  which is exact for the magnitudes that occur here.
\<close>

record tm =
  tm_days :: int
  tm_hour :: int
  tm_min :: int
  tm_sec :: int

definition gmtime :: "int \<Rightarrow> tm" where
  "gmtime t =
     \<lparr>tm_days = t div 86400,
      tm_hour = (t mod 86400) div 3600,
      tm_min = (t mod 3600) div 60,
      tm_sec = t mod 60\<rparr>"

definition timegm :: "tm \<Rightarrow> int" where
  "timegm b = tm_days b * 86400 + tm_hour b * 3600 + tm_min b * 60 + tm_sec b"

definition difftime :: "int \<Rightarrow> int \<Rightarrow> int" where
  "difftime time1 time0 = time1 - time0"

text \<open>
  Lines 188 to 195 of \<^verbatim>\<open>bot_main\<close>: the value of \<^verbatim>\<open>seconds_until_qotd\<close>,
  after the cast to \<^verbatim>\<open>uint64_t\<close>, as a function of what \<^verbatim>\<open>time(NULL)\<close> returned.
  Read it as the \<^verbatim>\<open>int64_t\<close> the program stores with \<open>sint\<close>.
\<close>

definition seconds_until_qotd :: "int \<Rightarrow> 64 word" where
  "seconds_until_qotd time_now =
     (let timeinfo_qotd = (gmtime time_now)\<lparr>tm_hour := 20, tm_min := 0, tm_sec := 10\<rparr>;
          time_qotd = timegm timeinfo_qotd;
          time_qotd' = (if (time_qotd - 15) < time_now then time_qotd + (24 * 60 * 60) else time_qotd)
      in word_of_int (difftime time_qotd' time_now))"

definition setqotd_command :: "u64snowflake \<Rightarrow> discord_application_command" where
  "setqotd_command app_id =
     \<lparr>command_type = DISCORD_APPLICATION_CHAT_INPUT,
      command_name = ''setqotd'',
      command_description = ''Set the next question of the day'',
      command_default_permission = False,
      command_application_id = app_id,
      command_options =
        [\<lparr>cmd_option_type = DISCORD_APPLICATION_OPTION_STRING,
          cmd_option_name = ''message'',
          cmd_option_description =
            ''The text message to send as question of the day, the bot will mention the role by itself'',
          cmd_option_required = True\<rparr>]\<rparr>"

text \<open>
  \<^verbatim>\<open>bot_main\<close>, with the value of \<^verbatim>\<open>time(NULL)\<close> as an argument. The timer is
  registered with the delay and the period in milliseconds and the repeat count -1.
\<close>

definition bot_main :: "bot_state \<Rightarrow> discord_ready \<Rightarrow> int \<Rightarrow> bot_state \<times> effect list" where
  "bot_main s event time_now =
     (if is_initialized s then (s, [])
      else
        (let seconds = seconds_until_qotd time_now
         in (s\<lparr>is_initialized := True\<rparr>,
             [Log_Info ''[QOTD] Initializing global slash commands...'',
              Discord_Bulk_Overwrite_Global_Application_Commands (application_id event)
                [setqotd_command (application_id event)],
              Log_Info (''[QOTD] Setting up timer to send question of the day in ''
                        @ show_int (sint seconds) @ '' seconds''),
              Discord_Timer_Interval (seconds * 1000) (24 * 60 * 60 * 1000) (- 1)])))"

subsection \<open>Callbacks as the client library delivers them\<close>

text \<open>
  The client library calls the three callbacks one at a time from its event loop: the
  ready callback (here with the clock reading it will see), the interaction callback
  and the timer callback. A run is a list of such calls; its effects are the effects
  of the calls in order, up to the end of the list or to the call that faults.
\<close>

datatype callback =
    Ready discord_ready int
  | Interaction_Create discord_interaction
  | Qotd_Timer

fun dispatch :: "bot_state \<Rightarrow> callback \<Rightarrow> (fault + bot_state) \<times> effect list" where
  "dispatch s (Ready event time_now) =
     (case bot_main s event time_now of (s1, es) \<Rightarrow> (Inr s1, es))"
| "dispatch s (Interaction_Create event) = on_setqotd s event"
| "dispatch s Qotd_Timer =
     (case on_qotd_timer s of (s1, es) \<Rightarrow> (Inr s1, es))"

fun run_callbacks :: "bot_state \<Rightarrow> callback list \<Rightarrow> (fault + bot_state) \<times> effect list" where
  "run_callbacks s [] = (Inr s, [])"
| "run_callbacks s (c # cs) =
     (case dispatch s c of
        (Inl f, es1) \<Rightarrow> (Inl f, es1)
      | (Inr s1, es1) \<Rightarrow>
          (case run_callbacks s1 cs of (r, es2) \<Rightarrow> (r, es1 @ es2)))"

subsection \<open>Process start and exit\<close>

text \<open>
  What the client library answers is the environment of \<^verbatim>\<open>main\<close>: the code
  returned by \<^verbatim>\<open>ccord_global_init\<close>, the client that
  \<^verbatim>\<open>discord_config_init\<close> returns for a configuration file (\<open>None\<close> for
  \<^verbatim>\<open>NULL\<close>) and the code that \<^verbatim>\<open>discord_run\<close> returns when the client has
  shut down.
\<close>

record environment =
  ccord_global_init :: int
  discord_config_init :: "string \<Rightarrow> nat option"
  discord_run :: int

definition initialize_discord :: "environment \<Rightarrow> nat option \<times> effect list" where
  "initialize_discord env =
     (let code = ccord_global_init env
      in if code \<noteq> 0 then
           (None, [Log_Trace (''[QOTD] ccord_global_init() failed: '' @ show_int code)])
         else
           (case discord_config_init env CONFIG_FILE of
              None \<Rightarrow>
                (None, [Log_Trace ''[QOTD] ccord_global_init() success'',
                        Log_Trace ''[QOTD] discord_create() failed'',
                        Ccord_Global_Cleanup])
            | Some client \<Rightarrow>
                (Some client, [Log_Trace ''[QOTD] ccord_global_init() success'',
                               Log_Trace ''[QOTD] discord_create() success''])))"

definition main :: "environment \<Rightarrow> int \<times> effect list" where
  "main env =
     (case initialize_discord env of
        (None, es) \<Rightarrow>
          (EXIT_FAILURE,
           [Log_Info ''[QOTD] Initializing qotd discord bot...''] @ es
           @ [Log_Fatal ''[QOTD] Failed to initialize discord bot''])
      | (Some client, es) \<Rightarrow>
          (EXIT_SUCCESS,
           [Log_Info ''[QOTD] Initializing qotd discord bot...''] @ es
           @ [Log_Info ''[QOTD] Launching qotd discord bot...'',
              Signal_Sigint_Handler,
              Discord_Set_On_Ready,
              Discord_Set_On_Interaction_Create,
              Discord_Run,
              Log_Info (''[QOTD] Discord bot exited ('' @ show_int (discord_run env)
                        @ ''), cleaning up...''),
              Discord_Cleanup,
              Ccord_Global_Cleanup]))"

section \<open>Properties\<close>

subsection \<open>The formats, evaluated\<close>

lemma show_llu_QOTD_ROLE_ID: "show_llu QOTD_ROLE_ID = ''1215105959815553096''"
  by (simp add: show_llu_def QOTD_ROLE_ID_def show_nat.simps digit_char_def)

lemma format_message_QOTD_ROLE_ID:
  "format_message QOTD_ROLE_ID msg = ''<@&1215105959815553096> '' @ msg"
  by (simp add: format_message_def show_llu_QOTD_ROLE_ID)

lemma format_response_literal:
  "format_response msg =
     ''Question of the day has been updated to:'' @ [CHR 0x0A] @ ''> '' @ [CHR 0x22] @ msg @ [CHR 0x22]"
  by (simp add: format_response_def newline_def dquote_def)

lemma length_format_response: "length (format_response msg) = 45 + length msg"
  by (simp add: format_response_def)

subsection \<open>The three paths of the submission handler and the two of the publisher\<close>

lemma single_string_option_iff:
  "(if length array \<noteq> 1 then True
    else option_type (array ! 0) \<noteq> DISCORD_APPLICATION_OPTION_STRING) \<longleftrightarrow>
     \<not> (\<exists>X. array = [\<lparr>option_type = DISCORD_APPLICATION_OPTION_STRING, option_value = X\<rparr>])"
proof (cases array)
  case Nil
  then show ?thesis by simp
next
  case (Cons p ps)
  show ?thesis
  proof (cases ps)
    case Nil
    obtain ty v where p: "p = \<lparr>option_type = ty, option_value = v\<rparr>"
      by (cases p) simp
    from Cons Nil p show ?thesis by auto
  next
    case (Cons q qs)
    with \<open>array = p # ps\<close> show ?thesis by simp
  qed
qed

lemma invalid_options_present:
  "invalid_options (Some array) =
     Inr (\<not> (\<exists>X. array = [\<lparr>option_type = DISCORD_APPLICATION_OPTION_STRING, option_value = X\<rparr>]))"
  unfolding invalid_options_def option.case single_string_option_iff ..

lemma invalid_options_absent: "invalid_options None = Inl Null_Pointer_Dereference"
  by (simp add: invalid_options_def)

lemma on_setqotd_valid:
  assumes "member_user_id event = LUMI_USER_ID"
    and "data_options event =
           Some [\<lparr>option_type = DISCORD_APPLICATION_OPTION_STRING, option_value = X\<rparr>]"
  shows "on_setqotd s event =
           (Inr (s\<lparr>qotd_message := Some X\<rparr>),
            [Discord_Create_Interaction_Response (event_id event) (event_token event)
               (ephemeral_response (take 4000 (format_response X))),
             Log_Info (''[QOTD] User '' @ member_user_username event @ '' updated qotd to ''
                       @ [dquote] @ X @ [dquote])])"
  using assms by (simp add: on_setqotd_def invalid_options_def strdup_def snprintf_def)

text \<open>
  An option list that is present and is not a single string option (empty, longer, or
  with one option of another type) is answered with the usage error.
\<close>

lemma on_setqotd_malformed:
  assumes "member_user_id event = LUMI_USER_ID"
    and "data_options event = Some array"
    and "\<not> (\<exists>X. array = [\<lparr>option_type = DISCORD_APPLICATION_OPTION_STRING, option_value = X\<rparr>])"
  shows "on_setqotd s event =
           (Inr s,
            [Discord_Create_Interaction_Response (event_id event) (event_token event)
               \<lparr>response_type = DISCORD_INTERACTION_CHANNEL_MESSAGE_WITH_SOURCE,
                response_flags = DISCORD_MESSAGE_EPHEMERAL,
                response_content = ''Invalid command usage, please provide a message!''\<rparr>,
             Log_Info (''[QOTD] User '' @ member_user_username event
                       @ '' tried to update qotd without providing a message'')])"
  using assms
  by (simp add: on_setqotd_def invalid_options_present ephemeral_response_def
                usage_error_content_def)

lemma on_setqotd_absent:
  assumes "member_user_id event = LUMI_USER_ID"
    and "data_options event = None"
  shows "on_setqotd s event = (Inl Null_Pointer_Dereference, [])"
  using assms by (simp add: on_setqotd_def invalid_options_absent)

lemma on_qotd_timer_Some:
  "qotd_message s = Some X \<Longrightarrow>
     on_qotd_timer s =
       (s\<lparr>qotd_message := None\<rparr>,
        [Discord_Create_Message QOTD_CHANNEL_ID (take 4000 (''<@&1215105959815553096> '' @ X))])"
  by (simp add: on_qotd_timer_def snprintf_def format_message_QOTD_ROLE_ID)

lemma on_qotd_timer_None:
  "qotd_message s = None \<Longrightarrow>
     on_qotd_timer s = (s, [Log_Info ''[QOTD] QOTD is not set, skipping...''])"
  by (simp add: on_qotd_timer_def)

lemma run_submit_publish:
  assumes "member_user_id event = LUMI_USER_ID"
    and "data_options event =
           Some [\<lparr>option_type = DISCORD_APPLICATION_OPTION_STRING, option_value = X\<rparr>]"
  shows "run_callbacks s [Interaction_Create event, Qotd_Timer] =
           (Inr (s\<lparr>qotd_message := None\<rparr>),
            snd (on_setqotd s event)
            @ [Discord_Create_Message QOTD_CHANNEL_ID (take 4000 (''<@&1215105959815553096> '' @ X))])"
    and "run_callbacks s [Interaction_Create event, Qotd_Timer, Qotd_Timer] =
           (Inr (s\<lparr>qotd_message := None\<rparr>),
            snd (on_setqotd s event)
            @ [Discord_Create_Message QOTD_CHANNEL_ID (take 4000 (''<@&1215105959815553096> '' @ X)),
               Log_Info ''[QOTD] QOTD is not set, skipping...''])"
  by (simp_all add: on_setqotd_valid [OF assms] on_qotd_timer_Some on_qotd_timer_None)

subsection \<open>The schedule computation and the bootstrap, evaluated\<close>

lemma timegm_target:
  "timegm ((gmtime t)\<lparr>tm_hour := 20, tm_min := 0, tm_sec := 10\<rparr>) = t - t mod 86400 + 72010"
  by (simp add: gmtime_def timegm_def minus_mod_eq_div_mult)

lemma seconds_until_qotd_cases:
  "seconds_until_qotd t =
     (if t mod 86400 \<le> 71995 then word_of_int (72010 - t mod 86400)
      else word_of_int (158410 - t mod 86400))"
  unfolding seconds_until_qotd_def Let_def timegm_target difftime_def
  by auto

lemma sint_small:
  "0 \<le> i \<Longrightarrow> i < 2 ^ 63 \<Longrightarrow> sint (word_of_int i :: 64 word) = i"
  by (simp add: signed_of_int signed_take_bit_int_eq_self)

lemma bot_main_first:
  "\<not> is_initialized s \<Longrightarrow>
     bot_main s event t =
       (s\<lparr>is_initialized := True\<rparr>,
        [Log_Info ''[QOTD] Initializing global slash commands...'',
         Discord_Bulk_Overwrite_Global_Application_Commands (application_id event)
           [setqotd_command (application_id event)],
         Log_Info (''[QOTD] Setting up timer to send question of the day in ''
                   @ show_int (sint (seconds_until_qotd t)) @ '' seconds''),
         Discord_Timer_Interval (seconds_until_qotd t * 1000) 86400000 (- 1)])"
  by (simp add: bot_main_def Let_def)

lemma bot_main_again: "is_initialized s \<Longrightarrow> bot_main s event t = (s, [])"
  by (simp add: bot_main_def)

text \<open>
  The delay is between 15 and 86414 seconds whatever the clock reads, so the casts of
  line 195 and the multiplication by 1000 of line 199 lose nothing.
\<close>

lemma seconds_until_qotd_value:
  "sint (seconds_until_qotd t) =
     (if t mod 86400 \<le> 71995 then 72010 - t mod 86400 else 158410 - t mod 86400)"
proof -
  have m: "0 \<le> t mod 86400" "t mod 86400 < 86400"
    by simp_all
  show ?thesis
  proof (cases "t mod 86400 \<le> 71995")
    case True
    have "sint (word_of_int (72010 - t mod 86400) :: 64 word) = 72010 - t mod 86400"
      using m True by (intro sint_small) simp_all
    with True show ?thesis by (simp add: seconds_until_qotd_cases)
  next
    case False
    have "sint (word_of_int (158410 - t mod 86400) :: 64 word) = 158410 - t mod 86400"
      using m False by (intro sint_small) simp_all
    with False show ?thesis by (simp add: seconds_until_qotd_cases)
  qed
qed

lemma seconds_until_qotd_range:
  "15 \<le> sint (seconds_until_qotd t) \<and> sint (seconds_until_qotd t) < 86415"
proof -
  define m where "m = t mod 86400"
  have "0 \<le> m" and "m < 86400"
    by (simp_all add: m_def)
  moreover have "sint (seconds_until_qotd t) = (if m \<le> 71995 then 72010 - m else 158410 - m)"
    by (simp add: seconds_until_qotd_value m_def)
  ultimately show ?thesis
    by (simp split: if_splits)
qed

lemma delay_milliseconds_exact:
  "sint (seconds_until_qotd t * 1000) = sint (seconds_until_qotd t) * 1000"
proof -
  define m where "m = t mod 86400"
  define d where "d = (if m \<le> 71995 then 72010 - m else 158410 - m)"
  have "0 \<le> m" and "m < 86400"
    by (simp_all add: m_def)
  then have r: "0 \<le> d" "d < 86415"
    by (simp_all add: d_def)
  have w: "seconds_until_qotd t = word_of_int d"
    by (simp add: seconds_until_qotd_cases d_def m_def)
  have "seconds_until_qotd t * 1000 = word_of_int (d * 1000)"
    by (simp add: w)
  moreover have "sint (word_of_int (d * 1000) :: 64 word) = d * 1000"
    using r by (intro sint_small) simp_all
  moreover have "sint (word_of_int d :: 64 word) = d"
    using r by (intro sint_small) simp_all
  ultimately show ?thesis
    by (simp add: w)
qed

subsection \<open>Registrations over a run of callbacks\<close>

lemma on_setqotd_state:
  "fst (on_setqotd s event) = Inr s1 \<Longrightarrow> is_initialized s1 = is_initialized s"
  by (auto simp: on_setqotd_def Let_def split: if_splits sum.splits bool.splits option.splits)

lemma on_setqotd_registers_nothing:
  "filter is_timer_registration (snd (on_setqotd s event)) = []
   \<and> filter is_command_registration (snd (on_setqotd s event)) = []"
  by (simp add: on_setqotd_def Let_def split: sum.splits bool.splits option.splits)

lemma dispatch_when_initialized:
  assumes "is_initialized s"
  shows "fst (dispatch s c) = Inr s1 \<Longrightarrow> is_initialized s1"
    and "filter is_timer_registration (snd (dispatch s c)) = []"
    and "filter is_command_registration (snd (dispatch s c)) = []"
proof -
  show "is_initialized s1" if "fst (dispatch s c) = Inr s1"
  proof (cases c)
    case (Ready event time_now)
    with that assms show ?thesis by (auto simp: bot_main_def)
  next
    case (Interaction_Create event)
    with that assms show ?thesis by (simp add: on_setqotd_state)
  next
    case Qotd_Timer
    with that assms show ?thesis by (auto simp: on_qotd_timer_def split: option.splits)
  qed
  show "filter is_timer_registration (snd (dispatch s c)) = []"
    using assms
    by (cases c) (simp_all add: bot_main_def on_qotd_timer_def on_setqotd_registers_nothing
                           split: option.splits)
  show "filter is_command_registration (snd (dispatch s c)) = []"
    using assms
    by (cases c) (simp_all add: bot_main_def on_qotd_timer_def on_setqotd_registers_nothing
                           split: option.splits)
qed

lemma dispatch_registers_only_at_bootstrap:
  assumes "\<not> is_initialized s"
  shows "((\<exists>s1. fst (dispatch s c) = Inr s1 \<and> is_initialized s1)
            \<and> length (filter is_timer_registration (snd (dispatch s c))) = 1
            \<and> length (filter is_command_registration (snd (dispatch s c))) = 1)
       \<or> (filter is_timer_registration (snd (dispatch s c)) = []
            \<and> filter is_command_registration (snd (dispatch s c)) = [])"
proof (cases c)
  case (Ready event time_now)
  with assms show ?thesis by (simp add: bot_main_def Let_def)
next
  case (Interaction_Create event)
  then show ?thesis by (simp add: on_setqotd_registers_nothing)
next
  case Qotd_Timer
  then show ?thesis by (simp add: on_qotd_timer_def split: option.splits)
qed

lemma snd_run_callbacks_Cons:
  "snd (run_callbacks s (c # cs)) =
     (case fst (dispatch s c) of
        Inl f \<Rightarrow> snd (dispatch s c)
      | Inr s1 \<Rightarrow> snd (dispatch s c) @ snd (run_callbacks s1 cs))"
  by (cases "dispatch s c") (simp split: sum.splits prod.splits)

lemma run_callbacks_when_initialized:
  "is_initialized s \<Longrightarrow>
     filter is_timer_registration (snd (run_callbacks s cs)) = []
     \<and> filter is_command_registration (snd (run_callbacks s cs)) = []"
proof (induction cs arbitrary: s)
  case Nil
  then show ?case by simp
next
  case (Cons c cs)
  note here = dispatch_when_initialized(2,3) [OF Cons.prems, of c]
  show ?case
  proof (cases "fst (dispatch s c)")
    case (Inl f)
    with here show ?thesis
      by (simp add: snd_run_callbacks_Cons del: run_callbacks.simps)
  next
    case (Inr s1)
    with Cons.prems have "is_initialized s1"
      by (simp add: dispatch_when_initialized(1))
    then have "filter is_timer_registration (snd (run_callbacks s1 cs)) = []
       \<and> filter is_command_registration (snd (run_callbacks s1 cs)) = []"
      by (rule Cons.IH)
    with here Inr show ?thesis
      by (simp add: snd_run_callbacks_Cons del: run_callbacks.simps)
  qed
qed

lemma run_callbacks_registers_at_most_once:
  "length (filter is_timer_registration (snd (run_callbacks s cs))) \<le> 1
   \<and> length (filter is_command_registration (snd (run_callbacks s cs))) \<le> 1"
proof (induction cs arbitrary: s)
  case Nil
  then show ?case by simp
next
  case (Cons c cs)
  let ?es1 = "snd (dispatch s c)"
  show ?case
  proof (cases "is_initialized s")
    case True
    then show ?thesis
      using run_callbacks_when_initialized [of s "c # cs"] by simp
  next
    case False
    from dispatch_registers_only_at_bootstrap [OF False, of c]
    show ?thesis
    proof
      assume first: "(\<exists>s1. fst (dispatch s c) = Inr s1 \<and> is_initialized s1)
            \<and> length (filter is_timer_registration ?es1) = 1
            \<and> length (filter is_command_registration ?es1) = 1"
      then obtain s1 where s1: "fst (dispatch s c) = Inr s1" "is_initialized s1"
        by blast
      then have "filter is_timer_registration (snd (run_callbacks s1 cs)) = []
         \<and> filter is_command_registration (snd (run_callbacks s1 cs)) = []"
        by (simp add: run_callbacks_when_initialized)
      with first s1 show ?thesis
        by (simp add: snd_run_callbacks_Cons del: run_callbacks.simps)
    next
      assume none: "filter is_timer_registration ?es1 = []
            \<and> filter is_command_registration ?es1 = []"
      show ?thesis
      proof (cases "fst (dispatch s c)")
        case (Inl f)
        with none show ?thesis
          by (simp add: snd_run_callbacks_Cons del: run_callbacks.simps)
      next
        case (Inr s1)
        with none Cons.IH [of s1] show ?thesis
          by (simp add: snd_run_callbacks_Cons del: run_callbacks.simps)
      qed
    qed
  qed
qed

subsection \<open>Claims about the submission handler\<close>

text \<open>
  Claim C3. When the caller's identity differs from \<^verbatim>\<open>LUMI_USER_ID\<close>, the handler
  leaves the state (and so the pending message) as it was and sends exactly one
  reply, ephemeral, with the rejection text. The options are not looked at: the
  outcome is the same whatever the option list of the event is, absent, malformed or
  well-formed.
\<close>

theorem unauthorized_caller_rejected:
  assumes "member_user_id event \<noteq> LUMI_USER_ID"
  shows "fst (on_setqotd s event) = Inr s
       \<and> filter is_interaction_response (snd (on_setqotd s event)) =
           [Discord_Create_Interaction_Response (event_id event) (event_token event)
              \<lparr>response_type = DISCORD_INTERACTION_CHANNEL_MESSAGE_WITH_SOURCE,
               response_flags = DISCORD_MESSAGE_EPHEMERAL,
               response_content = ''Hold up! Only Lumi can update the question of the day...''\<rparr>]
       \<and> on_setqotd s (event\<lparr>data_options := opts\<rparr>) = on_setqotd s event"
  using assms by (simp add: on_setqotd_def ephemeral_response_def rejection_content_def)

theorem unauthorized_caller_rejected_witness:
  "(42 :: u64snowflake) \<noteq> LUMI_USER_ID
   \<and> on_setqotd \<lparr>qotd_message = Some ''pending'', is_initialized = True\<rparr>
        \<lparr>event_id = 7, event_token = ''tok'', member_user_id = 42,
         member_user_username = ''mallory'', data_options = None\<rparr>
     = (Inr \<lparr>qotd_message = Some ''pending'', is_initialized = True\<rparr>,
        [Discord_Create_Interaction_Response 7 ''tok''
           \<lparr>response_type = DISCORD_INTERACTION_CHANNEL_MESSAGE_WITH_SOURCE,
            response_flags = DISCORD_MESSAGE_EPHEMERAL,
            response_content = ''Hold up! Only Lumi can update the question of the day...''\<rparr>,
         Log_Info ''[QOTD] User mallory tried to update question of the day''])
   \<and> on_setqotd \<lparr>qotd_message = Some ''pending'', is_initialized = True\<rparr>
        \<lparr>event_id = 7, event_token = ''tok'', member_user_id = 42,
         member_user_username = ''mallory'',
         data_options =
           Some [\<lparr>option_type = DISCORD_APPLICATION_OPTION_STRING, option_value = ''x''\<rparr>]\<rparr>
     = on_setqotd \<lparr>qotd_message = Some ''pending'', is_initialized = True\<rparr>
        \<lparr>event_id = 7, event_token = ''tok'', member_user_id = 42,
         member_user_username = ''mallory'', data_options = None\<rparr>"
proof -
  have ne: "(42 :: u64snowflake) \<noteq> LUMI_USER_ID"
    by (simp add: LUMI_USER_ID_def)
  have "member_user_id \<lparr>event_id = 7, event_token = ''tok'', member_user_id = 42 :: u64snowflake,
         member_user_username = ''mallory'', data_options = None\<rparr> \<noteq> LUMI_USER_ID"
    using ne by simp
  from unauthorized_caller_rejected [OF this,
      of "\<lparr>qotd_message = Some ''pending'', is_initialized = True\<rparr>"
         "Some [\<lparr>option_type = DISCORD_APPLICATION_OPTION_STRING, option_value = ''x''\<rparr>]"]
  show ?thesis using ne
    by (simp add: on_setqotd_def ephemeral_response_def rejection_content_def)
qed

text \<open>
  Claim C6. The claim asks that every invocation by \<^verbatim>\<open>LUMI_USER_ID\<close> whose option
  list is not a single option of string type leaves the state as it was and is
  answered with one ephemeral usage-error reply. The program does so when an option
  list is present (\<open>on_setqotd_malformed\<close>). When the event carries no option list,
  line 97 reads \<^verbatim>\<open>size\<close> through the \<^verbatim>\<open>NULL\<close> pointer: the handler faults and
  no reply is sent.
\<close>

theorem absent_option_list_faults:
  "on_setqotd \<lparr>qotd_message = Some ''pending'', is_initialized = True\<rparr>
        \<lparr>event_id = 7, event_token = ''tok'', member_user_id = LUMI_USER_ID,
         member_user_username = ''lumi'', data_options = None\<rparr>
     = (Inl Null_Pointer_Dereference, [])
   \<and> filter is_interaction_response
        (snd (on_setqotd \<lparr>qotd_message = Some ''pending'', is_initialized = True\<rparr>
                \<lparr>event_id = 7, event_token = ''tok'', member_user_id = LUMI_USER_ID,
                 member_user_username = ''lumi'', data_options = None\<rparr>))
     = []"
  by (simp add: on_setqotd_def invalid_options_def)

text \<open>
  Claim C2 says that the confirmation carries the text
  \<^verbatim>\<open>Question of the day has been updated to:\n> "X"\<close> for every \<open>X\<close>. The reply is
  read from a buffer of 4001 bytes, and 45 of the formatted bytes are not \<open>X\<close>: for
  an \<open>X\<close> of 3956 bytes the reply differs from that text (its closing quote is cut).
\<close>

theorem confirmation_reply_counterexample:
  "filter is_interaction_response (snd (on_setqotd initial_state
        \<lparr>event_id = 7, event_token = ''tok'', member_user_id = LUMI_USER_ID,
         member_user_username = ''lumi'',
         data_options = Some [\<lparr>option_type = DISCORD_APPLICATION_OPTION_STRING,
                               option_value = replicate 3956 (CHR ''a'')\<rparr>]\<rparr>))
   \<noteq> [Discord_Create_Interaction_Response 7 ''tok''
           \<lparr>response_type = DISCORD_INTERACTION_CHANNEL_MESSAGE_WITH_SOURCE,
            response_flags = DISCORD_MESSAGE_EPHEMERAL,
            response_content =
              ''Question of the day has been updated to:'' @ [CHR 0x0A] @ ''> '' @ [CHR 0x22]
              @ replicate 3956 (CHR ''a'') @ [CHR 0x22]\<rparr>]"
proof
  let ?X = "replicate 3956 (CHR ''a'')"
  let ?e = "\<lparr>event_id = 7, event_token = ''tok'', member_user_id = LUMI_USER_ID,
         member_user_username = ''lumi'',
         data_options =
           Some [\<lparr>option_type = DISCORD_APPLICATION_OPTION_STRING, option_value = ?X\<rparr>]\<rparr>"
  assume eq: "filter is_interaction_response (snd (on_setqotd initial_state ?e))
   = [Discord_Create_Interaction_Response 7 ''tok''
           \<lparr>response_type = DISCORD_INTERACTION_CHANNEL_MESSAGE_WITH_SOURCE,
            response_flags = DISCORD_MESSAGE_EPHEMERAL,
            response_content =
              ''Question of the day has been updated to:'' @ [CHR 0x0A] @ ''> '' @ [CHR 0x22]
              @ ?X @ [CHR 0x22]\<rparr>]"
  have "on_setqotd initial_state ?e =
           (Inr (initial_state\<lparr>qotd_message := Some ?X\<rparr>),
            [Discord_Create_Interaction_Response (event_id ?e) (event_token ?e)
               (ephemeral_response (take 4000 (format_response ?X))),
             Log_Info (''[QOTD] User '' @ member_user_username ?e @ '' updated qotd to ''
                       @ [dquote] @ ?X @ [dquote])])"
    by (rule on_setqotd_valid) simp_all
  with eq have "take 4000 (format_response ?X) = format_response ?X"
    by (simp add: ephemeral_response_def format_response_literal)
  then have "length (take 4000 (format_response ?X)) = length (format_response ?X)"
    by (simp only:)
  then show False
    by (simp add: length_format_response)
qed

text \<open>
  Claim C2, amended. A submission by \<^verbatim>\<open>LUMI_USER_ID\<close> with the single string option
  \<open>X\<close> stores \<open>X\<close> as the pending message, whatever was pending before, and sends
  exactly one reply, ephemeral, whose text is the first 4000 bytes of
  \<^verbatim>\<open>Question of the day has been updated to:\n> "X"\<close>; that is the whole of this text
  when \<open>X\<close> has at most 3955 bytes.
\<close>

theorem valid_submission_stored_and_confirmed:
  assumes "member_user_id event = LUMI_USER_ID"
    and "data_options event =
           Some [\<lparr>option_type = DISCORD_APPLICATION_OPTION_STRING, option_value = X\<rparr>]"
  shows "fst (on_setqotd s event) = Inr (s\<lparr>qotd_message := Some X\<rparr>)
       \<and> qotd_message (s\<lparr>qotd_message := Some X\<rparr>) = Some X
       \<and> filter is_interaction_response (snd (on_setqotd s event)) =
           [Discord_Create_Interaction_Response (event_id event) (event_token event)
              \<lparr>response_type = DISCORD_INTERACTION_CHANNEL_MESSAGE_WITH_SOURCE,
               response_flags = DISCORD_MESSAGE_EPHEMERAL,
               response_content =
                 take 4000 (''Question of the day has been updated to:'' @ [CHR 0x0A] @ ''> ''
                            @ [CHR 0x22] @ X @ [CHR 0x22])\<rparr>]
       \<and> (length X \<le> 3955 \<longrightarrow>
            filter is_interaction_response (snd (on_setqotd s event)) =
              [Discord_Create_Interaction_Response (event_id event) (event_token event)
                 \<lparr>response_type = DISCORD_INTERACTION_CHANNEL_MESSAGE_WITH_SOURCE,
                  response_flags = DISCORD_MESSAGE_EPHEMERAL,
                  response_content =
                    ''Question of the day has been updated to:'' @ [CHR 0x0A] @ ''> ''
                    @ [CHR 0x22] @ X @ [CHR 0x22]\<rparr>])"
proof -
  have "length X \<le> 3955 \<Longrightarrow> take 4000 (format_response X) = format_response X"
    by (simp add: length_format_response)
  then show ?thesis
    unfolding on_setqotd_valid [OF assms]
    by (simp add: ephemeral_response_def format_response_literal)
qed

theorem valid_submission_stored_and_confirmed_witness:
  "on_setqotd \<lparr>qotd_message = Some ''an older question'', is_initialized = True\<rparr>
        \<lparr>event_id = 7, event_token = ''tok'', member_user_id = LUMI_USER_ID,
         member_user_username = ''lumi'',
         data_options = Some [\<lparr>option_type = DISCORD_APPLICATION_OPTION_STRING,
                               option_value = ''What is your favorite color?''\<rparr>]\<rparr>
     = (Inr \<lparr>qotd_message = Some ''What is your favorite color?'', is_initialized = True\<rparr>,
        [Discord_Create_Interaction_Response 7 ''tok''
           \<lparr>response_type = DISCORD_INTERACTION_CHANNEL_MESSAGE_WITH_SOURCE,
            response_flags = DISCORD_MESSAGE_EPHEMERAL,
            response_content =
              ''Question of the day has been updated to:'' @ [CHR 0x0A] @ ''> '' @ [CHR 0x22]
              @ ''What is your favorite color?'' @ [CHR 0x22]\<rparr>,
         Log_Info (''[QOTD] User lumi updated qotd to '' @ [CHR 0x22]
                   @ ''What is your favorite color?'' @ [CHR 0x22])])"
proof -
  let ?e = "\<lparr>event_id = 7, event_token = ''tok'', member_user_id = LUMI_USER_ID,
         member_user_username = ''lumi'',
         data_options = Some [\<lparr>option_type = DISCORD_APPLICATION_OPTION_STRING,
                               option_value = ''What is your favorite color?''\<rparr>]\<rparr>"
  have c: "member_user_id ?e = LUMI_USER_ID"
    and d: "data_options ?e = Some [\<lparr>option_type = DISCORD_APPLICATION_OPTION_STRING,
                          option_value = ''What is your favorite color?''\<rparr>]"
    by simp_all
  from valid_submission_stored_and_confirmed [OF c d,
         of "\<lparr>qotd_message = Some ''an older question'', is_initialized = True\<rparr>"]
  show ?thesis
    by (simp add: on_setqotd_def invalid_options_def strdup_def snprintf_def
                  ephemeral_response_def format_response_def newline_def dquote_def)
qed

subsection \<open>Claims about the daily publisher\<close>

text \<open>
  Claim C7. When the publisher runs while no message is pending, it sends nothing to
  the channel (its only effect is the log line) and the state it returns is the
  state it was given, so the pending message is still absent.
\<close>

theorem publish_absent_is_noop:
  assumes "qotd_message s = None"
  shows "fst (on_qotd_timer s) = s
       \<and> qotd_message (fst (on_qotd_timer s)) = None
       \<and> filter is_create_message (snd (on_qotd_timer s)) = []
       \<and> snd (on_qotd_timer s) = [Log_Info ''[QOTD] QOTD is not set, skipping...'']"
  using assms by (simp add: on_qotd_timer_None)

theorem publish_absent_is_noop_witness:
  "qotd_message initial_state = None
   \<and> on_qotd_timer initial_state = (initial_state, [Log_Info ''[QOTD] QOTD is not set, skipping...''])
   \<and> filter is_create_message (snd (on_qotd_timer initial_state)) = []"
  using publish_absent_is_noop [of initial_state]
  by (simp add: initial_state_def prod_eq_iff)

text \<open>
  Claim C1 says that for every \<open>X\<close> the published message is the role mention, a
  space and \<open>X\<close>. The message is read from a buffer of 4001 bytes and the mention
  with its space takes 24: for an \<open>X\<close> of 3977 bytes the last byte of \<open>X\<close> is not
  sent.
\<close>

theorem round_trip_counterexample:
  "filter is_create_message (snd (run_callbacks initial_state
        [Interaction_Create
           \<lparr>event_id = 7, event_token = ''tok'', member_user_id = LUMI_USER_ID,
            member_user_username = ''lumi'',
            data_options = Some [\<lparr>option_type = DISCORD_APPLICATION_OPTION_STRING,
                                  option_value = replicate 3977 (CHR ''a'')\<rparr>]\<rparr>,
         Qotd_Timer]))
   \<noteq> [Discord_Create_Message QOTD_CHANNEL_ID
        (''<@&1215105959815553096> '' @ replicate 3977 (CHR ''a''))]"
proof
  let ?X = "replicate 3977 (CHR ''a'')"
  let ?e = "\<lparr>event_id = 7, event_token = ''tok'', member_user_id = LUMI_USER_ID,
         member_user_username = ''lumi'',
         data_options =
           Some [\<lparr>option_type = DISCORD_APPLICATION_OPTION_STRING, option_value = ?X\<rparr>]\<rparr>"
  assume eq: "filter is_create_message (snd (run_callbacks initial_state [Interaction_Create ?e, Qotd_Timer]))
     = [Discord_Create_Message QOTD_CHANNEL_ID (''<@&1215105959815553096> '' @ ?X)]"
  have c: "member_user_id ?e = LUMI_USER_ID"
    and d: "data_options ?e =
              Some [\<lparr>option_type = DISCORD_APPLICATION_OPTION_STRING, option_value = ?X\<rparr>]"
    by simp_all
  have "filter is_create_message (snd (run_callbacks initial_state [Interaction_Create ?e, Qotd_Timer]))
     = [Discord_Create_Message QOTD_CHANNEL_ID (take 4000 (''<@&1215105959815553096> '' @ ?X))]"
    unfolding run_submit_publish(1) [OF c d] on_setqotd_valid [OF c d] by simp
  with eq have "take 4000 (''<@&1215105959815553096> '' @ ?X) = ''<@&1215105959815553096> '' @ ?X"
    by (simp only: list.inject effect.inject)
  then have "length (take 4000 (''<@&1215105959815553096> '' @ ?X))
           = length (''<@&1215105959815553096> '' @ ?X)"
    by (simp only:)
  then show False
    by simp
qed

text \<open>
  Claim C1, amended. For every \<open>X\<close>, a submission of \<open>X\<close> by \<^verbatim>\<open>LUMI_USER_ID\<close>
  (one string option) followed by one run of the publisher sends exactly one message,
  to \<^verbatim>\<open>QOTD_CHANNEL_ID\<close>: the first 4000 bytes of the mention of
  \<^verbatim>\<open>QOTD_ROLE_ID\<close>, a space and \<open>X\<close>, which is all of it when \<open>X\<close> has at most
  3976 bytes. After that no message is pending, and a second run of the publisher
  sends no further message.
\<close>

theorem round_trip_submit_publish:
  assumes "member_user_id event = LUMI_USER_ID"
    and "data_options event =
           Some [\<lparr>option_type = DISCORD_APPLICATION_OPTION_STRING, option_value = X\<rparr>]"
  shows "filter is_create_message (snd (run_callbacks s [Interaction_Create event, Qotd_Timer])) =
           [Discord_Create_Message QOTD_CHANNEL_ID (take 4000 (''<@&1215105959815553096> '' @ X))]
       \<and> (length X \<le> 3976 \<longrightarrow>
            filter is_create_message (snd (run_callbacks s [Interaction_Create event, Qotd_Timer])) =
              [Discord_Create_Message QOTD_CHANNEL_ID (''<@&1215105959815553096> '' @ X)])
       \<and> fst (run_callbacks s [Interaction_Create event, Qotd_Timer]) =
           Inr (s\<lparr>qotd_message := None\<rparr>)
       \<and> qotd_message (s\<lparr>qotd_message := None\<rparr>) = None
       \<and> filter is_create_message
            (snd (run_callbacks s [Interaction_Create event, Qotd_Timer, Qotd_Timer])) =
           filter is_create_message (snd (run_callbacks s [Interaction_Create event, Qotd_Timer]))
       \<and> filter is_create_message (snd (on_qotd_timer (s\<lparr>qotd_message := None\<rparr>))) = []"
  unfolding run_submit_publish [OF assms] on_setqotd_valid [OF assms]
  by (simp add: on_qotd_timer_None)

theorem round_trip_submit_publish_witness:
  "run_callbacks initial_state
        [Interaction_Create
           \<lparr>event_id = 7, event_token = ''tok'', member_user_id = LUMI_USER_ID,
            member_user_username = ''lumi'',
            data_options = Some [\<lparr>option_type = DISCORD_APPLICATION_OPTION_STRING,
                                  option_value = ''What is your favorite color?''\<rparr>]\<rparr>,
         Qotd_Timer, Qotd_Timer]
   = (Inr initial_state,
      [Discord_Create_Interaction_Response 7 ''tok''
           \<lparr>response_type = DISCORD_INTERACTION_CHANNEL_MESSAGE_WITH_SOURCE,
            response_flags = DISCORD_MESSAGE_EPHEMERAL,
            response_content =
              ''Question of the day has been updated to:'' @ [CHR 0x0A] @ ''> '' @ [CHR 0x22]
              @ ''What is your favorite color?'' @ [CHR 0x22]\<rparr>,
       Log_Info (''[QOTD] User lumi updated qotd to '' @ [CHR 0x22]
                   @ ''What is your favorite color?'' @ [CHR 0x22]),
       Discord_Create_Message 1198507295538151434
         ''<@&1215105959815553096> What is your favorite color?'',
       Log_Info ''[QOTD] QOTD is not set, skipping...''])
   \<and> filter is_create_message (snd (run_callbacks initial_state
        [Interaction_Create
           \<lparr>event_id = 7, event_token = ''tok'', member_user_id = LUMI_USER_ID,
            member_user_username = ''lumi'',
            data_options = Some [\<lparr>option_type = DISCORD_APPLICATION_OPTION_STRING,
                                  option_value = ''What is your favorite color?''\<rparr>]\<rparr>,
         Qotd_Timer]))
     = [Discord_Create_Message QOTD_CHANNEL_ID
          ''<@&1215105959815553096> What is your favorite color?'']"
proof -
  let ?e = "\<lparr>event_id = 7, event_token = ''tok'', member_user_id = LUMI_USER_ID,
         member_user_username = ''lumi'',
         data_options = Some [\<lparr>option_type = DISCORD_APPLICATION_OPTION_STRING,
                               option_value = ''What is your favorite color?''\<rparr>]\<rparr>"
  have c: "member_user_id ?e = LUMI_USER_ID"
    and d: "data_options ?e = Some [\<lparr>option_type = DISCORD_APPLICATION_OPTION_STRING,
                          option_value = ''What is your favorite color?''\<rparr>]"
    by simp_all
  from round_trip_submit_publish [OF c d, of initial_state]
  show ?thesis
    by (simp add: on_setqotd_def invalid_options_def strdup_def snprintf_def
                  ephemeral_response_def format_response_def newline_def dquote_def
                  on_qotd_timer_def format_message_QOTD_ROLE_ID initial_state_def
                  QOTD_CHANNEL_ID_def)
qed

subsection \<open>The buffers of the two outbound texts\<close>

text \<open>
  Claim C9. The confirmation and the published message are each what a buffer of 4001
  bytes holds of the formatted text: its first 4000 bytes. When the formatted text is
  longer than 4000 bytes the outbound text has exactly 4000 bytes and is shorter than
  the formatted text, while the pending message is the whole submitted string.
\<close>

theorem outbound_texts_cut_to_buffer:
  "(member_user_id event = LUMI_USER_ID \<and>
    data_options event =
      Some [\<lparr>option_type = DISCORD_APPLICATION_OPTION_STRING, option_value = X\<rparr>] \<longrightarrow>
      fst (on_setqotd s event) = Inr (s\<lparr>qotd_message := Some X\<rparr>)
      \<and> qotd_message (s\<lparr>qotd_message := Some X\<rparr>) = Some X
      \<and> filter is_interaction_response (snd (on_setqotd s event)) =
          [Discord_Create_Interaction_Response (event_id event) (event_token event)
             \<lparr>response_type = DISCORD_INTERACTION_CHANNEL_MESSAGE_WITH_SOURCE,
              response_flags = DISCORD_MESSAGE_EPHEMERAL,
              response_content =
                take 4000 (''Question of the day has been updated to:'' @ [CHR 0x0A] @ ''> ''
                           @ [CHR 0x22] @ X @ [CHR 0x22])\<rparr>]
      \<and> (4000 < length (''Question of the day has been updated to:'' @ [CHR 0x0A] @ ''> ''
                         @ [CHR 0x22] @ X @ [CHR 0x22]) \<longrightarrow>
           length (take 4000 (''Question of the day has been updated to:'' @ [CHR 0x0A] @ ''> ''
                              @ [CHR 0x22] @ X @ [CHR 0x22])) = 4000
           \<and> length (take 4000 (''Question of the day has been updated to:'' @ [CHR 0x0A] @ ''> ''
                              @ [CHR 0x22] @ X @ [CHR 0x22]))
             < length (''Question of the day has been updated to:'' @ [CHR 0x0A] @ ''> ''
                       @ [CHR 0x22] @ X @ [CHR 0x22])))
   \<and> (qotd_message s' = Some Y \<longrightarrow>
        filter is_create_message (snd (on_qotd_timer s')) =
          [Discord_Create_Message QOTD_CHANNEL_ID (take 4000 (''<@&1215105959815553096> '' @ Y))]
        \<and> (4000 < length (''<@&1215105959815553096> '' @ Y) \<longrightarrow>
             length (take 4000 (''<@&1215105959815553096> '' @ Y)) = 4000
             \<and> length (take 4000 (''<@&1215105959815553096> '' @ Y))
               < length (''<@&1215105959815553096> '' @ Y)))"
proof -
  have submit: "fst (on_setqotd s event) = Inr (s\<lparr>qotd_message := Some X\<rparr>)
      \<and> qotd_message (s\<lparr>qotd_message := Some X\<rparr>) = Some X
      \<and> filter is_interaction_response (snd (on_setqotd s event)) =
          [Discord_Create_Interaction_Response (event_id event) (event_token event)
             \<lparr>response_type = DISCORD_INTERACTION_CHANNEL_MESSAGE_WITH_SOURCE,
              response_flags = DISCORD_MESSAGE_EPHEMERAL,
              response_content =
                take 4000 (''Question of the day has been updated to:'' @ [CHR 0x0A] @ ''> ''
                           @ [CHR 0x22] @ X @ [CHR 0x22])\<rparr>]"
    if "member_user_id event = LUMI_USER_ID"
      and "data_options event =
             Some [\<lparr>option_type = DISCORD_APPLICATION_OPTION_STRING, option_value = X\<rparr>]"
    unfolding on_setqotd_valid [OF that]
    by (simp add: ephemeral_response_def format_response_literal)
  have publish: "filter is_create_message (snd (on_qotd_timer s')) =
          [Discord_Create_Message QOTD_CHANNEL_ID (take 4000 (''<@&1215105959815553096> '' @ Y))]"
    if "qotd_message s' = Some Y"
    using that by (simp add: on_qotd_timer_Some)
  have cut: "4000 < length (t :: string) \<Longrightarrow> length (take 4000 t) = 4000 \<and> length (take 4000 t) < length t" for t
    by simp
  from submit publish cut show ?thesis
    by blast
qed

theorem outbound_texts_cut_to_buffer_witness:
  "fst (on_setqotd initial_state
        \<lparr>event_id = 7, event_token = ''tok'', member_user_id = LUMI_USER_ID,
         member_user_username = ''lumi'',
         data_options = Some [\<lparr>option_type = DISCORD_APPLICATION_OPTION_STRING,
                               option_value = replicate 5000 (CHR ''a'')\<rparr>]\<rparr>)
     = Inr (initial_state\<lparr>qotd_message := Some (replicate 5000 (CHR ''a''))\<rparr>)
   \<and> filter is_interaction_response (snd (on_setqotd initial_state
        \<lparr>event_id = 7, event_token = ''tok'', member_user_id = LUMI_USER_ID,
         member_user_username = ''lumi'',
         data_options = Some [\<lparr>option_type = DISCORD_APPLICATION_OPTION_STRING,
                               option_value = replicate 5000 (CHR ''a'')\<rparr>]\<rparr>))
     = [Discord_Create_Interaction_Response 7 ''tok''
             \<lparr>response_type = DISCORD_INTERACTION_CHANNEL_MESSAGE_WITH_SOURCE,
              response_flags = DISCORD_MESSAGE_EPHEMERAL,
              response_content =
                ''Question of the day has been updated to:'' @ [CHR 0x0A] @ ''> ''
                @ [CHR 0x22] @ replicate 3956 (CHR ''a'')\<rparr>]
   \<and> filter is_create_message
        (snd (on_qotd_timer \<lparr>qotd_message = Some (replicate 5000 (CHR ''a'')), is_initialized = True\<rparr>))
     = [Discord_Create_Message QOTD_CHANNEL_ID
          (''<@&1215105959815553096> '' @ replicate 3976 (CHR ''a''))]"
proof -
  let ?X = "replicate 5000 (CHR ''a'')"
  let ?e = "\<lparr>event_id = 7, event_token = ''tok'', member_user_id = LUMI_USER_ID,
         member_user_username = ''lumi'',
         data_options =
           Some [\<lparr>option_type = DISCORD_APPLICATION_OPTION_STRING, option_value = ?X\<rparr>]\<rparr>"
  have c: "member_user_id ?e = LUMI_USER_ID
        \<and> data_options ?e =
            Some [\<lparr>option_type = DISCORD_APPLICATION_OPTION_STRING, option_value = ?X\<rparr>]"
    by simp
  have p: "qotd_message \<lparr>qotd_message = Some ?X, is_initialized = True\<rparr> = Some ?X"
    by simp
  from outbound_texts_cut_to_buffer
         [of ?e ?X initial_state "\<lparr>qotd_message = Some ?X, is_initialized = True\<rparr>" ?X] c p
  show ?thesis
    by simp
qed

subsection \<open>Claims about the schedule computation\<close>

text \<open>
  Claim C5. When the bootstrap runs at 19:00:00 UTC (of any day) the delay it computes
  is 3610 seconds; when it runs at 20:00:06 UTC the target is moved to 20:00:10 of the
  next day and the delay is 86404 seconds. The timer is registered with that delay in
  milliseconds.
\<close>

theorem first_fire_delay_before_and_after_margin:
  "(t mod 86400 = 19 * 3600 \<longrightarrow>
      sint (seconds_until_qotd t) = 3610
      \<and> filter is_timer_registration (snd (bot_main initial_state event t)) =
          [Discord_Timer_Interval 3610000 86400000 (- 1)])
   \<and> (t mod 86400 = 20 * 3600 + 6 \<longrightarrow>
      sint (seconds_until_qotd t) = 24 * 3600 + 4
      \<and> filter is_timer_registration (snd (bot_main initial_state event t)) =
          [Discord_Timer_Interval 86404000 86400000 (- 1)])"
proof -
  have fresh: "\<not> is_initialized initial_state"
    by (simp add: initial_state_def)
  have before: "seconds_until_qotd t = 3610" if "t mod 86400 = 19 * 3600"
    using that by (simp add: seconds_until_qotd_cases)
  have after: "seconds_until_qotd t = 86404" if "t mod 86400 = 20 * 3600 + 6"
    using that by (simp add: seconds_until_qotd_cases)
  show ?thesis
  proof (intro conjI impI)
    assume "t mod 86400 = 19 * 3600"
    then show "sint (seconds_until_qotd t) = 3610"
      by (simp add: before)
  next
    assume "t mod 86400 = 19 * 3600"
    then show "filter is_timer_registration (snd (bot_main initial_state event t)) =
          [Discord_Timer_Interval 3610000 86400000 (- 1)]"
      by (simp add: bot_main_first [OF fresh] before)
  next
    assume "t mod 86400 = 20 * 3600 + 6"
    then show "sint (seconds_until_qotd t) = 24 * 3600 + 4"
      by (simp add: after)
  next
    assume "t mod 86400 = 20 * 3600 + 6"
    then show "filter is_timer_registration (snd (bot_main initial_state event t)) =
          [Discord_Timer_Interval 86404000 86400000 (- 1)]"
      by (simp add: bot_main_first [OF fresh] after)
  qed
qed

theorem first_fire_delay_before_and_after_margin_witness:
  "(1710097200 :: int) mod 86400 = 19 * 3600
   \<and> sint (seconds_until_qotd 1710097200) = 3610
   \<and> (1710100806 :: int) mod 86400 = 20 * 3600 + 6
   \<and> sint (seconds_until_qotd 1710100806) = 86404
   \<and> filter is_timer_registration (snd (bot_main initial_state \<lparr>application_id = 99\<rparr> 1710100806)) =
          [Discord_Timer_Interval 86404000 86400000 (- 1)]"
  using first_fire_delay_before_and_after_margin [of 1710097200 "\<lparr>application_id = 99\<rparr>"]
        first_fire_delay_before_and_after_margin [of 1710100806 "\<lparr>application_id = 99\<rparr>"]
  by simp

text \<open>
  Claim C4 says that a bootstrap at 20:00:00 UTC computes a delay of 10 seconds. At
  20:00:00 UTC of 10 March 2024 (1710100800) the target less 15 seconds, 19:59:55,
  is before the current time, so the test of line 194 holds and the target moves by a day:
  the delay is not 10 seconds.
\<close>

theorem first_fire_at_20_00_00_counterexample:
  "sint (seconds_until_qotd 1710100800) \<noteq> 10"
  by (simp add: seconds_until_qotd_def gmtime_def timegm_def difftime_def)

text \<open>
  Claim C4, amended. When the bootstrap runs at 20:00:00 UTC, less than 15 seconds
  before the target of 20:00:10, the target is moved to 20:00:10 of the next day: the
  delay is 86410 seconds. The first fire is today's 20:00:10 only when the bootstrap
  runs at 19:59:55 UTC or earlier in the day: then, and only then, the delay is the
  time left until today's 20:00:10; at every later time of the day the delay is the
  time left until 20:00:10 of the next day.
\<close>

theorem first_fire_inside_margin_is_next_day:
  "(t mod 86400 = 20 * 3600 \<longrightarrow>
      sint (seconds_until_qotd t) = 24 * 3600 + 10
      \<and> filter is_timer_registration (snd (bot_main initial_state event t)) =
          [Discord_Timer_Interval 86410000 86400000 (- 1)])
   \<and> (t mod 86400 \<le> 20 * 3600 + 10 - 15 \<longrightarrow>
      sint (seconds_until_qotd t) = 20 * 3600 + 10 - t mod 86400)
   \<and> (20 * 3600 + 10 - 15 < t mod 86400 \<longrightarrow>
      sint (seconds_until_qotd t) = 24 * 3600 + (20 * 3600 + 10) - t mod 86400)
   \<and> (sint (seconds_until_qotd t) = 20 * 3600 + 10 - t mod 86400
        \<longleftrightarrow> t mod 86400 \<le> 20 * 3600 + 10 - 15)"
proof -
  have at_20: "seconds_until_qotd t = 86410" if "t mod 86400 = 20 * 3600"
    using that by (simp add: seconds_until_qotd_cases)
  have today: "sint (seconds_until_qotd t) = 72010 - t mod 86400" if "t mod 86400 \<le> 71995"
    using that by (simp add: seconds_until_qotd_value)
  have next_day: "sint (seconds_until_qotd t) = 158410 - t mod 86400" if "71995 < t mod 86400"
    using that by (simp add: seconds_until_qotd_value)
  have only_then: "sint (seconds_until_qotd t) \<noteq> 72010 - t mod 86400" if "71995 < t mod 86400"
    using next_day [OF that] by simp
  have fresh: "\<not> is_initialized initial_state"
    by (simp add: initial_state_def)
  have timer: "filter is_timer_registration (snd (bot_main initial_state event t)) =
          [Discord_Timer_Interval 86410000 86400000 (- 1)]" if "t mod 86400 = 20 * 3600"
    using that by (simp add: bot_main_first [OF fresh] at_20)
  have iff: "sint (seconds_until_qotd t) = 72010 - t mod 86400 \<longleftrightarrow> t mod 86400 \<le> 71995"
    using today only_then by (cases "t mod 86400 \<le> 71995") simp_all
  from at_20 today next_day timer iff show ?thesis
    by simp
qed

theorem first_fire_inside_margin_is_next_day_witness:
  "(1710100800 :: int) mod 86400 = 20 * 3600
   \<and> sint (seconds_until_qotd 1710100800) = 86410
   \<and> (1710100795 :: int) mod 86400 = 20 * 3600 + 10 - 15
   \<and> sint (seconds_until_qotd 1710100795) = 15
   \<and> (1710100797 :: int) mod 86400 = 20 * 3600 + 10 - 13
   \<and> sint (seconds_until_qotd 1710100797) = 86413"
  using first_fire_inside_margin_is_next_day [of 1710100800 "\<lparr>application_id = 99\<rparr>"]
        first_fire_inside_margin_is_next_day [of 1710100795 "\<lparr>application_id = 99\<rparr>"]
        first_fire_inside_margin_is_next_day [of 1710100797 "\<lparr>application_id = 99\<rparr>"]
  by simp

subsection \<open>Claims about the bootstrap and the process\<close>

text \<open>
  Claim C8. The bootstrap is guarded by \<^verbatim>\<open>is_initialized\<close>. Run with the flag
  clear, it sets the flag, registers the command schema once and the timer once, and
  leaves the pending message alone; run with the flag set, it does nothing. So a
  second run right after any run does nothing, and over any sequence of callbacks
  (ready signals, with submissions and timer fires between them), from any state, at
  most one timer and at most one schema are registered.
\<close>

theorem bootstrap_runs_once:
  "(\<not> is_initialized s \<longrightarrow>
      is_initialized (fst (bot_main s event t))
      \<and> qotd_message (fst (bot_main s event t)) = qotd_message s
      \<and> filter is_command_registration (snd (bot_main s event t)) =
          [Discord_Bulk_Overwrite_Global_Application_Commands (application_id event)
             [setqotd_command (application_id event)]]
      \<and> filter is_timer_registration (snd (bot_main s event t)) =
          [Discord_Timer_Interval (seconds_until_qotd t * 1000) (24 * 60 * 60 * 1000) (- 1)])
   \<and> (is_initialized s \<longrightarrow> bot_main s event t = (s, []))
   \<and> bot_main (fst (bot_main s event t)) event' t' = (fst (bot_main s event t), [])
   \<and> length (filter is_timer_registration (snd (run_callbacks s cs))) \<le> 1
   \<and> length (filter is_command_registration (snd (run_callbacks s cs))) \<le> 1"
proof -
  have "is_initialized (fst (bot_main s event t))"
    by (simp add: bot_main_def Let_def)
  then have "bot_main (fst (bot_main s event t)) event' t' = (fst (bot_main s event t), [])"
    by (rule bot_main_again)
  then show ?thesis
    using run_callbacks_registers_at_most_once [of s cs]
    by (simp add: bot_main_first bot_main_again)
qed

theorem bootstrap_runs_once_witness:
  "\<not> is_initialized initial_state
   \<and> fst (bot_main initial_state \<lparr>application_id = 99\<rparr> 1710097200)
       = \<lparr>qotd_message = None, is_initialized = True\<rparr>
   \<and> filter is_timer_registration (snd (bot_main initial_state \<lparr>application_id = 99\<rparr> 1710097200))
       = [Discord_Timer_Interval 3610000 86400000 (- 1)]
   \<and> is_initialized \<lparr>qotd_message = None, is_initialized = True\<rparr>
   \<and> bot_main \<lparr>qotd_message = None, is_initialized = True\<rparr> \<lparr>application_id = 99\<rparr> 1710183600
       = (\<lparr>qotd_message = None, is_initialized = True\<rparr>, [])
   \<and> filter is_timer_registration
        (snd (run_callbacks initial_state
               [Ready \<lparr>application_id = 99\<rparr> 1710097200, Qotd_Timer,
                Ready \<lparr>application_id = 99\<rparr> 1710183600,
                Ready \<lparr>application_id = 99\<rparr> 1710183601]))
       = [Discord_Timer_Interval 3610000 86400000 (- 1)]"
proof -
  have t: "seconds_until_qotd 1710097200 = 3610"
    by (simp add: seconds_until_qotd_cases)
  from bootstrap_runs_once [of initial_state "\<lparr>application_id = 99\<rparr>" 1710097200
                               "\<lparr>application_id = 99\<rparr>" 1710183600 "[]"]
       bootstrap_runs_once [of "\<lparr>qotd_message = None, is_initialized = True\<rparr>"
                               "\<lparr>application_id = 99\<rparr>" 1710183600
                               "\<lparr>application_id = 99\<rparr>" 1710183600 "[]"]
  show ?thesis
    by (simp add: initial_state_def bot_main_def Let_def t on_qotd_timer_def)
qed

text \<open>
  Claim C10. \<^verbatim>\<open>main\<close> returns 1 exactly when \<^verbatim>\<open>initialize_discord\<close> returns
  \<^verbatim>\<open>NULL\<close>, which is when \<^verbatim>\<open>ccord_global_init\<close> returns a nonzero code or
  \<^verbatim>\<open>discord_config_init\<close> returns \<^verbatim>\<open>NULL\<close>. Otherwise the client is run and,
  once \<^verbatim>\<open>discord_run\<close> has returned, \<^verbatim>\<open>main\<close> returns 0, whatever code
  \<^verbatim>\<open>discord_run\<close> returned.
\<close>

theorem exit_status:
  "(fst (main env) = 1 \<longleftrightarrow> fst (initialize_discord env) = None)
   \<and> (fst (initialize_discord env) = None \<longleftrightarrow>
        ccord_global_init env \<noteq> 0 \<or> discord_config_init env ''config.json'' = None)
   \<and> (fst (main env) = 0 \<longleftrightarrow> fst (initialize_discord env) \<noteq> None)
   \<and> (fst (main env) = 0 \<longleftrightarrow> Discord_Run \<in> set (snd (main env)))
   \<and> fst (main (env\<lparr>discord_run := code\<rparr>)) = fst (main env)"
  by (auto simp: main_def initialize_discord_def Let_def EXIT_SUCCESS_def EXIT_FAILURE_def
                 CONFIG_FILE_def
           split: option.splits)

theorem exit_status_witness:
  "fst (main \<lparr>ccord_global_init = 0, discord_config_init = (\<lambda>file. Some 1),
              discord_run = 5\<rparr>) = 0
   \<and> fst (main \<lparr>ccord_global_init = 3, discord_config_init = (\<lambda>file. Some 1),
              discord_run = 0\<rparr>) = 1
   \<and> fst (main \<lparr>ccord_global_init = 0, discord_config_init = (\<lambda>file. None),
              discord_run = 0\<rparr>) = 1"
  using exit_status [of "\<lparr>ccord_global_init = 0, discord_config_init = (\<lambda>file. Some 1),
              discord_run = 5\<rparr>" 5]
    exit_status [of "\<lparr>ccord_global_init = 3, discord_config_init = (\<lambda>file. Some 1),
              discord_run = 0\<rparr>" 0]
    exit_status [of "\<lparr>ccord_global_init = 0, discord_config_init = (\<lambda>file. None),
              discord_run = 0\<rparr>" 0]
  by (simp add: initialize_discord_def)

end
